theory Spec2Isabelle
  imports Main "HOL-Library.Sublist" "HOL-Library.Multiset"
begin

section \<open>Python values shared by the modelled modules\<close>

text \<open>
  A Python \<open>str\<close> is a \<^typ>\<open>string\<close>. A raised exception is a value carrying the text
  that \<open>str(e)\<close> gives; only instances of \<open>Exception\<close> are modelled, since every handler
  of the source is an \<open>except Exception\<close> (or narrower).
\<close>

datatype exn = Exception string

fun str_of_exn :: "exn \<Rightarrow> string" where
  "str_of_exn (Exception msg) = msg"

datatype level = DEBUG | INFO | WARNING | ERROR

subsection \<open>The string methods the source calls\<close>

definition backslash :: char where
  "backslash = CHR 0x5C"





text \<open>
  \<open>str.lower\<close> on the code points below 256: the letters A to Z and the Latin-1 letters
  0xC0 to 0xDE (but the multiplication sign 0xD7) move up by 32.
\<close>

definition lower_char :: "char \<Rightarrow> char" where
  "lower_char c =
     (let n = (of_char c :: nat)
      in if (65 \<le> n \<and> n \<le> 90) \<or> (192 \<le> n \<and> n \<le> 222 \<and> n \<noteq> 215)
         then char_of (n + 32) else c)"

definition lower :: "string \<Rightarrow> string" where
  "lower s = map lower_char s"

text \<open>\<open>sub in s\<close>: \<open>sub\<close> occurs in \<open>s\<close> as a contiguous run of characters.\<close>

fun startswith :: "'a list \<Rightarrow> 'a list \<Rightarrow> bool" where
  "startswith s [] = True"
| "startswith [] (c # sub) = False"
| "startswith (d # s) (c # sub) = (d = c \<and> startswith s sub)"

fun contains :: "'a list \<Rightarrow> 'a list \<Rightarrow> bool" where
  "contains [] sub = (sub = [])"
| "contains (d # s) sub = (startswith (d # s) sub \<or> contains s sub)"


text \<open>\<open>s.split(sep)\<close> for a one-character separator: never an empty list.\<close>

fun split_on :: "char \<Rightarrow> string \<Rightarrow> string list" where
  "split_on sep [] = [[]]"
| "split_on sep (c # s) =
     (if c = sep then [] # split_on sep s
      else (case split_on sep s of
              [] \<Rightarrow> [[c]]
            | part # parts \<Rightarrow> (c # part) # parts))"

text \<open>\<open>str(n)\<close> of an integer, as an f-string writes it.\<close>

fun str_of_nat :: "nat \<Rightarrow> string" where
  "str_of_nat n = (if n < 10 then [char_of (48 + n)]
                   else str_of_nat (n div 10) @ [char_of (48 + n mod 10)])"

definition str_of_int :: "int \<Rightarrow> string" where
  "str_of_int i = (if i < 0 then CHR ''-'' # str_of_nat (nat (- i)) else str_of_nat (nat i))"


section \<open>ui/panels/packages/tree\_widget.py: PackagesTree\<close>

text \<open>
  A \<open>QTreeWidgetItem\<close> built from a list of strings holds one text per column;
  \<open>item.text(i)\<close> is that text, and the empty string for a column the item does not have.
  The tree is the multiset of its top-level items: the widget sorts them by the first
  column (\<open>setSortingEnabled(True)\<close>), and the order it shows them in is not modelled.
\<close>

type_synonym tree_item = "string list"

definition item_text :: "tree_item \<Rightarrow> nat \<Rightarrow> string" where
  "item_text item column = (if column < length item then item ! column else [])"

record program =
  name :: string
  version :: string
  publisher :: string
  install_date :: string
  install_location :: string
  registry_key :: string

text \<open>\<open>add_program\<close> returns the created item and the tree with the item added.\<close>

definition add_program ::
  "tree_item multiset \<Rightarrow> string \<Rightarrow> string \<Rightarrow> string \<Rightarrow> string \<Rightarrow> string \<Rightarrow> string
     \<Rightarrow> tree_item \<times> tree_item multiset" where
  "add_program tree nm ver pub date loc key =
     (let item = [nm, ver, pub, date, loc, key]
      in (item, add_mset item tree))"

definition get_program :: "tree_item \<Rightarrow> program" where
  "get_program item =
     \<lparr> name = item_text item 0,
       version = item_text item 1,
       publisher = item_text item 2,
       install_date = item_text item 3,
       install_location = item_text item 4,
       registry_key = item_text item 5 \<rparr>"


section \<open>ui/panels/disk/manager.py: DiskManager\<close>

subsection \<open>Drive letters\<close>

text \<open>
  \<open>psutil.disk_partitions(all=True)\<close> either raises or gives the list of partitions;
  the argument of \<open>get_drive_letters_info\<close> is that outcome.
\<close>

record sdiskpart =
  device :: string
  mountpoint :: string
  fstype :: string
  opts :: string

record drive_letters_info =
  all_letters :: "string list"
  used_letters :: "string list"
  available_letters :: "string list"

text \<open>\<open>[f"{chr(i)}:" for i in range(65, 91)]\<close>\<close>

definition drive_letters :: "string list" where
  "drive_letters = map (\<lambda>i. [char_of i, CHR '':'']) [65 ..< 91 :: nat]"

text \<open>The loop over the partitions, \<open>used\<close> being \<open>used_letters\<close> so far.\<close>

fun used_loop :: "string list \<Rightarrow> sdiskpart list \<Rightarrow> string list" where
  "used_loop used [] = used"
| "used_loop used (part # rest) =
     (if device part \<noteq> [] \<and> length (device part) \<ge> 2
      then used_loop (used @ [take 2 (device part)]) rest
      else used_loop used rest)"

text \<open>The result, with the lines written to the logger.\<close>

definition get_drive_letters_info ::
  "exn + sdiskpart list \<Rightarrow> drive_letters_info \<times> (level \<times> string) list" where
  "get_drive_letters_info disk_partitions =
     (case disk_partitions of
        Inr partitions \<Rightarrow>
          (let all = drive_letters;
               used = used_loop [] partitions;
               available = filter (\<lambda>letter. letter \<notin> set used) all
           in (\<lparr> all_letters = all, used_letters = used, available_letters = available \<rparr>, []))
      | Inl e \<Rightarrow>
          (\<lparr> all_letters = drive_letters, used_letters = [], available_letters = drive_letters \<rparr>,
           [(ERROR, ''Error getting drive letters info: '' @ str_of_exn e)]))"


subsection \<open>Subprocesses, signals and the trace of a call\<close>

text \<open>
  A method of \<open>DiskManager\<close> returns a result dictionary and, on the way, runs
  subprocesses, writes to the logger, emits Qt signals and calls the win32 API. The model
  returns the dictionary together with the trace of these events, in the order the
  source performs them. \<open>Run argv\<close> is one \<open>subprocess.run(argv, capture_output=True,
  text=True)\<close>: \<open>argv\<close> is the argument list handed to the child process.
\<close>

type_synonym argv = "string list"

record completed_process =
  returncode :: int
  stdout :: string
  stderr :: string

datatype signal =
    volume_mounted string string string bool
  | volume_unmounted string
  | error_occurred string

datatype event =
    Run argv
  | Log level string
  | Emit signal
  | WNetAddConnection2 string string string string nat

text \<open>The result dictionaries: \<open>success\<close>, and \<open>error\<close> or \<open>warning\<close> when the key is present.\<close>

record op_result =
  success :: bool
  error :: "string option"
  warning :: "string option"

text \<open>
  What \<open>win32wnet.WNetAddConnection2\<close> does: it returns, raises \<open>pywintypes.error\<close>
  (with \<open>winerror\<close> and \<open>strerror\<close>), or raises some other exception.
\<close>

datatype wnet_outcome =
    wnet_returned
  | pywintypes_error int string
  | wnet_raised exn

text \<open>
  The world outside the method. The outcome of a subprocess may depend on the events so
  far; \<open>wnet_add_connection2\<close> takes the local name, the remote name, the password, the
  user name and the flags.
  \<open>import_win32\<close> is the \<open>ImportError\<close> of the win32 imports, if they fail.
  \<open>refresh_volumes\<close> stands for the events of \<open>self.refresh_volumes()\<close>, which catches
  its own exceptions: the partitions it lists and the queries it runs are the
  environment's.
\<close>

record environment =
  subprocess_run :: "event list \<Rightarrow> argv \<Rightarrow> exn + completed_process"
  import_win32 :: "exn option"
  wnet_add_connection2 :: "string \<Rightarrow> string \<Rightarrow> string \<Rightarrow> string \<Rightarrow> nat \<Rightarrow> wnet_outcome"
  refresh_volumes :: "event list \<Rightarrow> event list"

definition newline :: char where
  "newline = CHR 0x0A"

definition quote :: char where
  "quote = CHR 0x27"

definition str_of_bool :: "bool \<Rightarrow> string" where
  "str_of_bool b = (if b then ''True'' else ''False'')"

text \<open>\<open>win32netcon.CONNECT_UPDATE_PROFILE\<close>\<close>

definition CONNECT_UPDATE_PROFILE :: nat where
  "CONNECT_UPDATE_PROFILE = 1"

subsection \<open>map\_network\_drive\<close>

text \<open>\<open>"/persistent:" + ("yes" if reconnect else "no")\<close>\<close>

definition persistent :: "bool \<Rightarrow> string" where
  "persistent reconnect = ''/persistent:'' @ (if reconnect then ''yes'' else ''no'')"

text \<open>The handler \<open>except Exception as e\<close> that closes the method.\<close>

definition map_failed :: "event list \<Rightarrow> exn \<Rightarrow> op_result \<times> event list" where
  "map_failed tr e =
     (let error_msg = ''Failed to map network drive: '' @ str_of_exn e
      in (\<lparr> success = False, error = Some (str_of_exn e), warning = None \<rparr>,
          tr @ [Log ERROR error_msg, Emit (error_occurred error_msg)]))"

text \<open>
  Reading the local \<open>stdout\<close> where no branch has assigned it raises
  \<open>UnboundLocalError\<close>; the text is the one of CPython 3.11 and later.
\<close>

definition unbound_stdout :: exn where
  "unbound_stdout = Exception (''cannot access local variable '' @ [quote] @ ''stdout'' @ [quote]
                                @ '' where it is not associated with a value'')"

text \<open>
  The connectivity test of the failure report: \<open>network_path.split('\\')[2]\<close> raises
  \<open>IndexError\<close> when the path has fewer than three parts, inside the \<open>try\<close>.
\<close>

definition ping_server :: "environment \<Rightarrow> string \<Rightarrow> event list \<Rightarrow> event list" where
  "ping_server env network_path tr =
     (let parts = split_on backslash network_path
      in if length parts > 2 then
           (let server = parts ! 2;
                tr1 = tr @ [Log DEBUG (''Attempting to ping server: '' @ server)];
                cmd = [''ping'', ''-n'', ''1'', server]
            in case subprocess_run env tr1 cmd of
                 Inr ping_result \<Rightarrow>
                   tr1 @ [Run cmd,
                          Log DEBUG (''Network connectivity test: '' @ [newline] @ stdout ping_result)]
               | Inl ping_err \<Rightarrow>
                   tr1 @ [Run cmd, Log ERROR (''Error pinging server: '' @ str_of_exn ping_err)])
         else tr @ [Log ERROR (''Error pinging server: list index out of range'')])"

text \<open>
  The method from "Log the command output" on. \<open>out\<close> is the local \<open>stdout\<close>
  (\<open>None\<close> when unassigned), \<open>err\<close> the local \<open>stderr\<close>, \<open>rc\<close> the return code of the local
  \<open>process\<close> when one is bound.
\<close>

definition map_finish ::
  "environment \<Rightarrow> string \<Rightarrow> string \<Rightarrow> bool \<Rightarrow> string \<Rightarrow> bool
     \<Rightarrow> int option \<Rightarrow> string option \<Rightarrow> string \<Rightarrow> event list \<Rightarrow> op_result \<times> event list" where
  "map_finish env network_path drive_letter use_windows_creds username reconnect rc out err tr =
     (case out of
        None \<Rightarrow> map_failed tr unbound_stdout
      | Some out \<Rightarrow>
          (let tr1 = tr @ (if out \<noteq> [] then [Log DEBUG (''Command output: '' @ out)] else [])
                        @ (if err \<noteq> [] then [Log DEBUG (''Command error: '' @ err)] else [])
           in if err \<noteq> [] \<and> contains (lower err) ''error'' then
                (let tr2 = tr1 @
                       [Log ERROR (''Failed to map network drive: '' @ err),
                        Log ERROR (''Network path: '' @ network_path @ '', Drive: '' @ drive_letter),
                        Log ERROR (''Using Windows creds: '' @ str_of_bool use_windows_creds
                                    @ '', Username: '' @ username)];
                     tr3 = (if \<not> use_windows_creds then
                              ping_server env network_path
                                (tr2 @
                                 [Log ERROR (''Return code: ''
                                      @ str_of_int (case rc of Some code \<Rightarrow> code | None \<Rightarrow> 2)),
                                  Log DEBUG ''Attempting diagnostic command...'',
                                  Log DEBUG (''Diagnostic command (password redacted): net use ''
                                      @ drive_letter @ '' '' @ network_path @ '' /user:'' @ username
                                      @ '' PASSWORD /persistent:''
                                      @ (if reconnect then ''yes'' else ''no''))])
                            else tr2)
                 in (\<lparr> success = False, error = Some err, warning = None \<rparr>,
                     tr3 @ [Emit (error_occurred (''Failed to map network drive: '' @ err))]))
              else
                (let tr2 = tr1 @ [Log INFO (''Mapping network drive '' @ network_path
                                             @ '' to '' @ drive_letter)];
                     tr3 = tr2 @ refresh_volumes env tr2
                 in (\<lparr> success = True, error = None, warning = None \<rparr>,
                     tr3 @ [Emit (volume_mounted drive_letter (drive_letter @ [backslash])
                                    network_path True)]))))"

text \<open>Error 1219: the server is already connected with other credentials.\<close>

definition multiple_connections ::
  "environment \<Rightarrow> string \<Rightarrow> string \<Rightarrow> string \<Rightarrow> bool \<Rightarrow> string \<Rightarrow> event list
     \<Rightarrow> op_result \<times> event list" where
  "multiple_connections env network_path drive_letter username reconnect error_msg tr =
     (let parts = split_on backslash network_path;
          server_name = (if length parts > 2 then parts ! 2 else ''server'');
          tr1 = tr @ [Log WARNING (''Multiple connection error detected for server: '' @ server_name)];
          cmd = [''net'', ''use'']
      in case subprocess_run env tr1 cmd of
           Inr list_process \<Rightarrow>
             (let tr2 = tr1 @ [Run cmd]
                        @ (if stdout list_process \<noteq> []
                           then [Log DEBUG (''Existing connections:'' @ [newline] @ stdout list_process)]
                           else []);
                  msg = ''Cannot connect to '' @ network_path @ '' with user '' @ [quote] @ username
                        @ [quote] @ '' because you already have a connection to the same server ''
                        @ ''with different credentials.'' @ [newline, newline]
                        @ ''Please disconnect existing connections to '' @ server_name
                        @ '' first using '' @ [quote] @ ''net use /delete'' @ [quote] @ '', ''
                        @ ''or use the same credentials for all connections to this server.''
              in map_finish env network_path drive_letter False username reconnect
                   None (Some []) msg tr2)
         | Inl list_err \<Rightarrow>
             map_finish env network_path drive_letter False username reconnect
               None None (''Multiple connections error: '' @ error_msg)
               (tr1 @ [Run cmd, Log ERROR (''Error listing connections: '' @ str_of_exn list_err)]))"

text \<open>Any other \<open>pywintypes.error\<close>: the \<open>net use\<close> command with the credentials in it.\<close>

definition fallback_net_use ::
  "environment \<Rightarrow> string \<Rightarrow> string \<Rightarrow> string \<Rightarrow> string \<Rightarrow> bool \<Rightarrow> event list
     \<Rightarrow> op_result \<times> event list" where
  "fallback_net_use env network_path drive_letter username password reconnect tr =
     (let tr1 = tr @ [Log DEBUG ''Trying fallback with net use command''];
          cmd = [''net'', ''use'', drive_letter, network_path,
                 ''/user:'' @ username, password, persistent reconnect]
      in case subprocess_run env tr1 cmd of
           Inl e \<Rightarrow> map_failed (tr1 @ [Run cmd]) e
         | Inr process \<Rightarrow>
             map_finish env network_path drive_letter False username reconnect
               (Some (returncode process)) (Some (stdout process)) (stderr process)
               (tr1 @ [Run cmd]))"

text \<open>"Ensure drive letter format is correct"\<close>

definition ensure_colon :: "string \<Rightarrow> string" where
  "ensure_colon drive_letter = (if length drive_letter = 1 then drive_letter @ '':'' else drive_letter)"

definition map_network_drive ::
  "environment \<Rightarrow> string \<Rightarrow> string \<Rightarrow> bool \<Rightarrow> string \<Rightarrow> string \<Rightarrow> bool
     \<Rightarrow> op_result \<times> event list" where
  "map_network_drive env network_path drive_letter0 use_windows_creds username password reconnect =
     (let drive_letter = ensure_colon drive_letter0;
          tr0 = [Run [''net'', ''use'', drive_letter, ''/delete'', ''/y'']]
      in if use_windows_creds then
           (let tr1 = tr0 @ [Log DEBUG ''Using current Windows credentials''];
                cmd = [''net'', ''use'', drive_letter, network_path, persistent reconnect]
            in case subprocess_run env tr1 cmd of
                 Inl e \<Rightarrow> map_failed (tr1 @ [Run cmd]) e
               | Inr process \<Rightarrow>
                   map_finish env network_path drive_letter True username reconnect
                     (Some (returncode process)) (Some (stdout process)) (stderr process)
                     (tr1 @ [Run cmd]))
         else
           (let tr1 = tr0 @ [Log DEBUG (''Using win32 API to map drive with custom credentials ''
                                         @ ''for user: '' @ username)]
            in case import_win32 env of
                 Some e \<Rightarrow>
                   (let msg = ''Failed to import win32 modules: '' @ str_of_exn e
                    in map_finish env network_path drive_letter False username reconnect
                         None (Some []) msg (tr1 @ [Log ERROR msg]))
               | None \<Rightarrow>
                   (let flags = (if \<not> reconnect then 0 else CONNECT_UPDATE_PROFILE);
                        tr2 = tr1 @ [WNetAddConnection2 drive_letter network_path password username flags]
                    in case wnet_add_connection2 env drive_letter network_path password username flags of
                         wnet_returned \<Rightarrow>
                           (let out = ''Successfully mapped '' @ network_path @ '' to ''
                                      @ drive_letter @ '' using win32 API''
                            in map_finish env network_path drive_letter False username reconnect
                                 None (Some out) [] (tr2 @ [Log INFO out]))
                       | wnet_raised e \<Rightarrow> map_failed tr2 e
                       | pywintypes_error error_code error_msg \<Rightarrow>
                           (let tr3 = tr2 @ [Log ERROR (''Win32 API error: '' @ str_of_int error_code
                                                         @ '' - '' @ error_msg)]
                            in if error_code = 1219
                               then multiple_connections env network_path drive_letter username
                                      reconnect error_msg tr3
                               else fallback_net_use env network_path drive_letter username
                                      password reconnect tr3))))"

subsection \<open>disconnect\_network\_drive\<close>






section \<open>ui/main/remote\_handler.py: RemoteHandler\<close>

text \<open>
  The handler owns one \<open>RemoteManager\<close> (\<open>self.remote_manager\<close>) and drives the main
  window. \<open>RemoteManager\<close>, \<open>ConnectionDialog\<close> and the status handler are imported from
  modules that are not among the source files, so the manager is a value of an arbitrary
  type \<open>'m\<close> and the three things the handler asks of it are parameters:
  \<open>remote_manager.is_connected()\<close>, \<open>remote_manager.connection.host\<close> and
  \<open>remote_manager.disconnect()\<close>, the last giving the manager afterwards and the exception
  it raised, if any. The calls on the main window, the logger and the message box are
  taken to return normally.
\<close>

record 'm manager_calls =
  rm_is_connected :: "'m \<Rightarrow> bool"
  rm_connection_host :: "'m \<Rightarrow> string"
  rm_disconnect :: "'m \<Rightarrow> 'm \<times> exn option"

text \<open>
  The handler with what it writes to: the connection indicator
  (\<open>set_connection_status(connected, host)\<close>), the status line (\<open>set_status\<close>), the remote
  features (\<open>update_remote_state\<close>), the logger and the warning boxes
  (\<open>QMessageBox.warning\<close>, title and text).
\<close>

record 'm remote_handler =
  remote_manager :: 'm
  connection_status :: "bool \<times> string option"
  status :: string
  remote_state :: bool
  logger :: "(level \<times> string) list"
  warning_boxes :: "(string \<times> string) list"

text \<open>
  \<open>connect\<close>: the dialog is run on the manager; \<open>dialog_exec\<close> gives whether it was accepted
  and the manager as the dialog leaves it ("Connection is handled by the dialog itself").
\<close>

definition connect ::
  "'m manager_calls \<Rightarrow> ('m \<Rightarrow> bool \<times> 'm) \<Rightarrow> 'm remote_handler \<Rightarrow> 'm remote_handler" where
  "connect calls dialog_exec h =
     (let (accepted, m) = dialog_exec (remote_manager h);
          h1 = h\<lparr> remote_manager := m \<rparr>
      in if accepted then
           (if rm_is_connected calls m then
              h1\<lparr> connection_status := (True, Some (rm_connection_host calls m)),
                  status := ''Connected to '' @ rm_connection_host calls m,
                  remote_state := True \<rparr>
            else h1)
         else h1)"

text \<open>
  The body of the \<open>try\<close> of \<open>disconnect\<close>: \<open>Inl\<close> is the exception raised, with the handler
  as it is at that point.
\<close>

definition disconnect_body ::
  "'m manager_calls \<Rightarrow> 'm remote_handler \<Rightarrow> (exn \<times> 'm remote_handler) + 'm remote_handler" where
  "disconnect_body calls h =
     (case rm_disconnect calls (remote_manager h) of
        (m, Some e) \<Rightarrow> Inl (e, h\<lparr> remote_manager := m \<rparr>)
      | (m, None) \<Rightarrow>
          Inr (h\<lparr> remote_manager := m,
                   connection_status := (False, None),
                   status := ''Disconnected'',
                   remote_state := False \<rparr>))"

text \<open>
  \<open>disconnect\<close> as its caller sees it: \<open>Inl\<close> would be an exception leaving the method,
  \<open>Inr\<close> is a normal return.
\<close>

definition disconnect ::
  "'m manager_calls \<Rightarrow> 'm remote_handler \<Rightarrow> exn + 'm remote_handler" where
  "disconnect calls h =
     (case disconnect_body calls h of
        Inr h1 \<Rightarrow> Inr h1
      | Inl (e, h1) \<Rightarrow>
          (let msg = ''Error during disconnect: '' @ str_of_exn e
           in Inr (h1\<lparr> logger := logger h1 @ [(ERROR, msg)],
                        warning_boxes := warning_boxes h1 @ [(''Disconnect Error'', msg)] \<rparr>)))"

definition is_connected :: "'m manager_calls \<Rightarrow> 'm remote_handler \<Rightarrow> bool" where
  "is_connected calls h = rm_is_connected calls (remote_manager h)"



section \<open>The remote core the specification describes\<close>

text \<open>
  The session registry, the sessions and the fan-out executor belong to the package
  \<open>src.core.remote\<close>, which is not among the source files. The definitions of this section
  follow sections 3, 4 and 7 of the specification.
\<close>

subsection \<open>Data model\<close>

text \<open>Modelled from the spec: the error taxonomy of section 7; no source file defines it.\<close>

datatype core_error =
    AuthError
  | NetworkError
  | TimeoutError
  | RemoteExecError string
  | SessionClosedError
  | IOError

text \<open>Modelled from the spec: the states of a RemoteSession (section 4.1); the class is missing.\<close>

datatype session_state = Disconnected | Connecting | Connected | Failed

text \<open>Modelled from the spec: ConnectionRecord (section 3); the connection store is missing.\<close>

record connection_record =
  record_name :: string
  record_hostname :: string
  record_username :: string
  credential_reference :: nat
  saved_flag :: bool

text \<open>Modelled from the spec: RemoteSession (section 3); the class is missing.\<close>

record remote_session =
  session_record :: connection_record
  transport_handle :: nat
  connection_state :: session_state
  last_error :: "core_error option"

text \<open>
  Modelled from the spec: the underlying transport (section 6), an external dependency.
  Establishing the transport gives a handle, is refused or times out; authentication
  accepts or rejects the credentials; the handshake probe finds the host reachable,
  unreachable, or exceeds its bound. \<open>handle_alive\<close> is the liveness probe of a handle and
  \<open>execute_on\<close> runs one operation (kind and parameters) over a handle.
\<close>

datatype establish_outcome = Established nat | Refused | Establish_timeout

datatype probe_outcome = Reachable | Unreachable | Probe_timeout

record transport =
  establish :: "connection_record \<Rightarrow> establish_outcome"
  authenticate :: "nat \<Rightarrow> connection_record \<Rightarrow> bool"
  handshake_probe :: "nat \<Rightarrow> probe_outcome"
  handle_alive :: "nat \<Rightarrow> bool"
  execute_on :: "nat \<Rightarrow> string \<Rightarrow> string list \<Rightarrow> core_error + string"

text \<open>
  Modelled from the spec: the SessionRegistry / RemoteManager (section 4.2), which is
  missing: the sessions by record name in insertion order, and the transport handles held.
\<close>

record registry =
  sessions :: "(string \<times> remote_session) list"
  held_handles :: "nat list"

text \<open>Modelled from the spec: the registry of a manager that has connected to nothing yet.\<close>

definition empty_registry :: registry where
  "empty_registry = \<lparr> sessions = [], held_handles = [] \<rparr>"

subsection \<open>RemoteSession.connect\<close>

text \<open>
  Modelled from the spec: \<open>RemoteSession.connect\<close> (section 4.1), which is missing. It
  "establishes transport, authenticates, verifies reachability with a bounded-time
  handshake probe. On success, state = connected; on any failure, no partial session is
  retained (fully torn down)". The result comes with the handles held afterwards.
\<close>

definition session_connect ::
  "transport \<Rightarrow> nat list \<Rightarrow> connection_record \<Rightarrow> (core_error + remote_session) \<times> nat list" where
  "session_connect t handles r =
     (case establish t r of
        Refused \<Rightarrow> (Inl NetworkError, handles)
      | Establish_timeout \<Rightarrow> (Inl TimeoutError, handles)
      | Established h \<Rightarrow>
          (let held = h # handles
           in if \<not> authenticate t h r then (Inl AuthError, remove1 h held)
              else (case handshake_probe t h of
                      Unreachable \<Rightarrow> (Inl NetworkError, remove1 h held)
                    | Probe_timeout \<Rightarrow> (Inl TimeoutError, remove1 h held)
                    | Reachable \<Rightarrow>
                        (Inr \<lparr> session_record = r, transport_handle = h,
                               connection_state = Connected, last_error = None \<rparr>,
                         held))))"

text \<open>Modelled from the spec: \<open>RemoteSession.is_alive\<close> (section 4.1), which is missing.\<close>

definition is_alive :: "transport \<Rightarrow> remote_session \<Rightarrow> bool" where
  "is_alive t s = (connection_state s = Connected \<and> handle_alive t (transport_handle s))"

subsection \<open>RemoteManager.connect\<close>

text \<open>
  Modelled from the spec: \<open>RemoteManager.connect\<close> (section 4.2), which is missing: "if a
  session already exists for record.name, reuse if alive, else tear down and recreate".
  Tearing a session down removes its entry and releases its handle.
\<close>

definition tear_down :: "string \<Rightarrow> registry \<Rightarrow> registry" where
  "tear_down nm m =
     (case map_of (sessions m) nm of
        None \<Rightarrow> m
      | Some old \<Rightarrow>
          \<lparr> sessions = filter (\<lambda>entry. fst entry \<noteq> nm) (sessions m),
            held_handles = remove1 (transport_handle old) (held_handles m) \<rparr>)"

text \<open>
  Modelled from the spec: the "tear down and recreate" of section 4.2 (the manager is
  missing), in that order: the record's old session, if any, is torn down, then a new
  session is connected and, if that succeeds, registered.
\<close>

definition recreate :: "transport \<Rightarrow> registry \<Rightarrow> connection_record \<Rightarrow> (core_error + remote_session) \<times> registry" where
  "recreate t m r =
     (let m0 = tear_down (record_name r) m
      in case session_connect t (held_handles m0) r of
           (Inl e, handles) \<Rightarrow> (Inl e, m0\<lparr> held_handles := handles \<rparr>)
         | (Inr s, handles) \<Rightarrow>
             (Inr s, m0\<lparr> sessions := sessions m0 @ [(record_name r, s)],
                         held_handles := handles \<rparr>))"

text \<open>
  Modelled from the spec: \<open>RemoteManager.connect\<close> itself (section 4.2), which is missing:
  reuse the record's session if it is alive, else recreate.
\<close>

definition manager_connect ::
  "transport \<Rightarrow> registry \<Rightarrow> connection_record \<Rightarrow> (core_error + remote_session) \<times> registry" where
  "manager_connect t m r =
     (case map_of (sessions m) (record_name r) of
        Some s \<Rightarrow> if is_alive t s then (Inr s, m) else recreate t m r
      | None \<Rightarrow> recreate t m r)"

text \<open>
  Modelled from the spec: the live sessions of a record (section 3), the registry being
  missing: its entries under the record's name that are in state connected.
\<close>

definition live_sessions :: "registry \<Rightarrow> connection_record \<Rightarrow> remote_session list" where
  "live_sessions m r =
     map snd (filter (\<lambda>entry. fst entry = record_name r \<and> connection_state (snd entry) = Connected)
                (sessions m))"

text \<open>
  Modelled from the spec: the invariant of the missing registry (sections 3 and 4.2): one
  entry per record name, each in state connected.
\<close>

definition registry_ok :: "registry \<Rightarrow> bool" where
  "registry_ok m =
     (distinct (map fst (sessions m))
      \<and> list_all (\<lambda>entry. connection_state (snd entry) = Connected) (sessions m))"

subsection \<open>RemoteManager.disconnect and is-connected\<close>

text \<open>
  Modelled from the spec: \<open>disconnect(name)\<close> of the missing manager (section 4.2): it
  "tears down one" session and "the result communicates whether a genuine session
  existed".
\<close>

definition manager_disconnect :: "string \<Rightarrow> registry \<Rightarrow> bool \<times> registry" where
  "manager_disconnect nm m = (map_of (sessions m) nm \<noteq> None, tear_down nm m)"

text \<open>
  Modelled from the spec: the is-connected query of the missing manager (sections 2 and
  4.2): the registry holds a session under the name and it is in state connected.
\<close>

definition manager_is_connected :: "registry \<Rightarrow> string \<Rightarrow> bool" where
  "manager_is_connected m nm =
     (case map_of (sessions m) nm of
        None \<Rightarrow> False
      | Some s \<Rightarrow> connection_state s = Connected)"

subsection \<open>FanOutExecutor\<close>

text \<open>Modelled from the spec: OperationRequest and the per-host outcome (section 3).\<close>

record operation_request =
  kind :: string
  parameters :: "string list"
  targets :: "string list"

datatype host_outcome = Succeeded string | Failure core_error

datatype fan_out_failure = Malformed_request

text \<open>
  Modelled from the spec: the fan-out algorithm (sections 4.3 and 7), which is missing.
  The targets are resolved against the registry at dispatch time, in the order the request
  lists them; each resolved session executes the operation and its failure is recorded in
  its own entry; a target without a connected session gets a \<open>SessionClosedError\<close> entry
  (scenario of section 8). An empty target set gives an empty result; otherwise a request
  of unknown kind fails before any dispatch.
\<close>

definition resolve :: "registry \<Rightarrow> string list \<Rightarrow> (string \<times> remote_session option) list" where
  "resolve m hosts = map (\<lambda>host. (host, map_of (sessions m) host)) hosts"

text \<open>
  Modelled from the spec: one per-host call of the missing executor (sections 4.3 and 7);
  a failure of \<open>execute\<close> is caught and recorded as the host's outcome.
\<close>

definition execute :: "transport \<Rightarrow> operation_request \<Rightarrow> remote_session option \<Rightarrow> host_outcome" where
  "execute t req found =
     (case found of
        None \<Rightarrow> Failure SessionClosedError
      | Some s \<Rightarrow>
          if connection_state s \<noteq> Connected then Failure SessionClosedError
          else (case execute_on t (transport_handle s) (kind req) (parameters req) of
                  Inl e \<Rightarrow> Failure e
                | Inr out \<Rightarrow> Succeeded out))"

text \<open>
  Modelled from the spec: the fan-out call of the missing executor (section 4.3), over the
  operation kinds the core knows.
\<close>

definition fan_out ::
  "transport \<Rightarrow> string list \<Rightarrow> registry \<Rightarrow> operation_request
     \<Rightarrow> fan_out_failure + (string \<times> host_outcome) list" where
  "fan_out t known_kinds m req =
     (if targets req = [] then Inr []
      else if kind req \<notin> set known_kinds then Inl Malformed_request
      else Inr (map (\<lambda>(host, found). (host, execute t req found)) (resolve m (targets req))))"


section \<open>Sample inputs\<close>

subsection \<open>A sample environment of DiskManager\<close>

text \<open>
  No network drive is mapped, the win32 modules import, and the server rejects the
  password (Windows error 86).
\<close>

definition sample_listing :: completed_process where
  "sample_listing = \<lparr> returncode = 0, stdout = ''There are no entries in the list.'', stderr = [] \<rparr>"

definition sample_env :: environment where
  "sample_env =
     \<lparr> subprocess_run = (\<lambda>tr cmd. Inr sample_listing),
       import_win32 = None,
       wnet_add_connection2 =
         (\<lambda>local remote password username flags.
            pywintypes_error 86 ''The specified network password is not correct.''),
       refresh_volumes = (\<lambda>tr. []) \<rparr>"

definition sample_share :: string where
  "sample_share = [backslash, backslash] @ ''server'' @ [backslash] @ ''share''"


subsection \<open>A sample manager for RemoteHandler\<close>

text \<open>
  A manager that is the host of its one connection, if any. The dialog \<open>dialog_to host\<close> is
  accepted and leaves the manager connected to \<open>host\<close>; \<open>failing_calls\<close> is the same
  manager with a \<open>disconnect\<close> that raises.
\<close>

definition sample_calls :: "string option manager_calls" where
  "sample_calls =
     \<lparr> rm_is_connected = (\<lambda>m. m \<noteq> None),
       rm_connection_host = (\<lambda>m. case m of Some host \<Rightarrow> host | None \<Rightarrow> []),
       rm_disconnect = (\<lambda>m. (None, None)) \<rparr>"

definition failing_calls :: "string option manager_calls" where
  "failing_calls = sample_calls \<lparr> rm_disconnect := (\<lambda>m. (m, Some (Exception ''Socket is closed''))) \<rparr>"

definition dialog_to :: "string \<Rightarrow> string option \<Rightarrow> bool \<times> string option" where
  "dialog_to host m = (True, Some host)"

definition initial_handler :: "string option remote_handler" where
  "initial_handler =
     \<lparr> remote_manager = None, connection_status = (False, None), status = [],
       remote_state = False, logger = [], warning_boxes = [] \<rparr>"

subsection \<open>A sample transport and registry\<close>

text \<open>
  Record "A" has valid credentials and record "B" has not (first scenarios of section 8);
  every host is reachable and every operation succeeds.
\<close>

definition sample_record_a :: connection_record where
  "sample_record_a =
     \<lparr> record_name = ''A'', record_hostname = ''host-a'', record_username = ''admin'',
       credential_reference = 1, saved_flag = True \<rparr>"

definition sample_record_b :: connection_record where
  "sample_record_b =
     \<lparr> record_name = ''B'', record_hostname = ''host-b'', record_username = ''admin'',
       credential_reference = 2, saved_flag = True \<rparr>"

definition sample_transport :: transport where
  "sample_transport =
     \<lparr> establish = (\<lambda>r. Established (credential_reference r)),
       authenticate = (\<lambda>h r. record_name r = ''A''),
       handshake_probe = (\<lambda>h. Reachable),
       handle_alive = (\<lambda>h. True),
       execute_on = (\<lambda>h k ps. Inr ''ok'') \<rparr>"

definition sample_session_a :: remote_session where
  "sample_session_a =
     \<lparr> session_record = sample_record_a, transport_handle = 1,
       connection_state = Connected, last_error = None \<rparr>"

definition sample_registry :: registry where
  "sample_registry = \<lparr> sessions = [(''A'', sample_session_a)], held_handles = [1] \<rparr>"

text \<open>
  \<open>open_transport\<close> accepts the credentials of every record. \<open>dead_transport\<close> is a network
  that has gone away: no handle is alive and establishing a transport is refused.
\<close>

definition open_transport :: transport where
  "open_transport = sample_transport \<lparr> authenticate := (\<lambda>h r. True) \<rparr>"


definition sample_session_b :: remote_session where
  "sample_session_b =
     \<lparr> session_record = sample_record_b, transport_handle = 2,
       connection_state = Connected, last_error = None \<rparr>"

definition sample_registry_ab :: registry where
  "sample_registry_ab =
     \<lparr> sessions = [(''A'', sample_session_a), (''B'', sample_session_b)], held_handles = [2, 1] \<rparr>"

definition sample_request :: operation_request where
  "sample_request = \<lparr> kind = ''set_variable'', parameters = [''VAR'', ''1''], targets = [''A'', ''B''] \<rparr>"


section \<open>Properties\<close>

subsection \<open>PackagesTree\<close>

text \<open>
  C10. \<open>get_program\<close> on the item that \<open>add_program\<close> returns gives back the six strings
  passed in, each under its own key, unchanged.
\<close>

theorem add_program_get_program:
  "get_program (fst (add_program tree nm ver pub date loc key)) =
     \<lparr> name = nm, version = ver, publisher = pub, install_date = date,
       install_location = loc, registry_key = key \<rparr>"
  by (simp add: add_program_def Let_def get_program_def item_text_def)

subsection \<open>DiskManager: drive letters\<close>

lemma drive_letters_eq:
  "drive_letters =
     [''A:'', ''B:'', ''C:'', ''D:'', ''E:'', ''F:'', ''G:'', ''H:'', ''I:'', ''J:'', ''K:'',
      ''L:'', ''M:'', ''N:'', ''O:'', ''P:'', ''Q:'', ''R:'', ''S:'', ''T:'', ''U:'', ''V:'',
      ''W:'', ''X:'', ''Y:'', ''Z:'']"
  unfolding drive_letters_def by code_simp

text \<open>
  C8. Whatever \<open>psutil.disk_partitions\<close> does, \<open>all_letters\<close> is the 26 strings "A:" to
  "Z:" in that order and \<open>available_letters\<close> is \<open>all_letters\<close> without the members of
  \<open>used_letters\<close>, order kept; when psutil raises, \<open>used_letters\<close> is empty and
  \<open>available_letters\<close> is \<open>all_letters\<close>.
\<close>

theorem get_drive_letters_info_letters:
  "all_letters (fst (get_drive_letters_info dp)) =
     [''A:'', ''B:'', ''C:'', ''D:'', ''E:'', ''F:'', ''G:'', ''H:'', ''I:'', ''J:'', ''K:'',
      ''L:'', ''M:'', ''N:'', ''O:'', ''P:'', ''Q:'', ''R:'', ''S:'', ''T:'', ''U:'', ''V:'',
      ''W:'', ''X:'', ''Y:'', ''Z:'']
   \<and> available_letters (fst (get_drive_letters_info dp)) =
       filter (\<lambda>letter. letter \<notin> set (used_letters (fst (get_drive_letters_info dp))))
         (all_letters (fst (get_drive_letters_info dp)))
   \<and> used_letters (fst (get_drive_letters_info (Inl e))) = []
   \<and> available_letters (fst (get_drive_letters_info (Inl e))) =
       all_letters (fst (get_drive_letters_info (Inl e)))"
  by (simp add: get_drive_letters_info_def Let_def drive_letters_eq split: sum.split)

subsection \<open>DiskManager: mapping a network drive\<close>

lemma map_failed_keeps: "ev \<in> set tr \<Longrightarrow> ev \<in> set (snd (map_failed tr e))"
  by (simp add: map_failed_def Let_def)

lemma ping_server_keeps: "ev \<in> set tr \<Longrightarrow> ev \<in> set (ping_server env network_path tr)"
  by (simp add: ping_server_def Let_def split: sum.split)

lemma map_finish_keeps:
  "ev \<in> set tr \<Longrightarrow>
   ev \<in> set (snd (map_finish env network_path drive_letter creds username reconnect rc out err tr))"
  by (auto simp add: map_finish_def Let_def map_failed_keeps ping_server_keeps split: option.split)

lemma fallback_net_use_runs:
  "Run [''net'', ''use'', drive_letter, network_path, ''/user:'' @ username, password,
        persistent reconnect]
     \<in> set (snd (fallback_net_use env network_path drive_letter username password reconnect tr))"
  by (simp add: fallback_net_use_def Let_def map_failed_keeps map_finish_keeps split: sum.split)

text \<open>
  C6. With custom credentials (\<open>use_windows_creds\<close> false), when the win32 modules import
  and \<open>WNetAddConnection2\<close> raises \<open>pywintypes.error\<close> with a code other than 1219, the
  method hands \<open>subprocess.run\<close> an argument list whose sixth element is the password as
  given: the cleartext password is on the command line of \<open>net use\<close>. The sample
  environment, where the server answers with error 86, gives such an input.
\<close>

theorem map_network_drive_password_in_argv:
  assumes "\<not> use_windows_creds"
    and "import_win32 env = None"
    and "wnet_add_connection2 env (ensure_colon drive_letter) network_path password username
           (if \<not> reconnect then 0 else CONNECT_UPDATE_PROFILE) = pywintypes_error error_code error_msg"
    and "error_code \<noteq> 1219"
  shows "Run [''net'', ''use'', ensure_colon drive_letter, network_path,
              ''/user:'' @ username, password, persistent reconnect]
           \<in> set (snd (map_network_drive env network_path drive_letter use_windows_creds
                          username password reconnect))"
proof -
  have "map_network_drive env network_path drive_letter use_windows_creds username password reconnect =
          fallback_net_use env network_path (ensure_colon drive_letter) username password reconnect
            ([Run [''net'', ''use'', ensure_colon drive_letter, ''/delete'', ''/y'']]
             @ [Log DEBUG (''Using win32 API to map drive with custom credentials ''
                            @ ''for user: '' @ username)]
             @ [WNetAddConnection2 (ensure_colon drive_letter) network_path password username
                  (if \<not> reconnect then 0 else CONNECT_UPDATE_PROFILE)]
             @ [Log ERROR (''Win32 API error: '' @ str_of_int error_code @ '' - '' @ error_msg)])"
    using assms unfolding map_network_drive_def Let_def by simp
  then show ?thesis
    by (simp only: fallback_net_use_runs)
qed

theorem map_network_drive_password_in_argv_witness:
  "import_win32 sample_env = None
   \<and> wnet_add_connection2 sample_env (ensure_colon ''Z'') sample_share ''hunter2'' ''bob''
         (if \<not> True then 0 else CONNECT_UPDATE_PROFILE)
       = pywintypes_error 86 ''The specified network password is not correct.''
   \<and> Run [''net'', ''use'', ''Z:'', sample_share, ''/user:bob'', ''hunter2'', ''/persistent:yes'']
         \<in> set (snd (map_network_drive sample_env sample_share ''Z'' False ''bob'' ''hunter2'' True))"
proof -
  have h1: "\<not> False" by simp
  have h2: "import_win32 sample_env = None"
    by (simp add: sample_env_def)
  have h3: "wnet_add_connection2 sample_env (ensure_colon ''Z'') sample_share ''hunter2'' ''bob''
              (if \<not> True then 0 else CONNECT_UPDATE_PROFILE)
            = pywintypes_error 86 ''The specified network password is not correct.''"
    by (simp add: sample_env_def)
  have h4: "(86::int) \<noteq> 1219" by simp
  have "Run [''net'', ''use'', ensure_colon ''Z'', sample_share,
             ''/user:'' @ ''bob'', ''hunter2'', persistent True]
          \<in> set (snd (map_network_drive sample_env sample_share ''Z'' False ''bob'' ''hunter2'' True))"
    by (rule map_network_drive_password_in_argv [OF h1 h2 h3 h4])
  then have "Run [''net'', ''use'', ''Z:'', sample_share, ''/user:bob'', ''hunter2'', ''/persistent:yes'']
          \<in> set (snd (map_network_drive sample_env sample_share ''Z'' False ''bob'' ''hunter2'' True))"
    by (simp add: ensure_colon_def persistent_def)
  with h2 h3 show ?thesis by blast
qed

subsection \<open>DiskManager: disconnecting a network drive\<close>




subsection \<open>RemoteHandler\<close>

text \<open>
  C4. \<open>disconnect\<close> returns normally in every state and whatever the manager's
  \<open>disconnect\<close> does: an exception it raises is caught, written to the logger as an error
  and shown in a warning box, and the connection indicator is then left as it was;
  without an exception nothing is logged and the indicator shows disconnected.
\<close>

theorem disconnect_never_propagates:
  "\<exists>h1. disconnect calls h = Inr h1
      \<and> (case snd (rm_disconnect calls (remote_manager h)) of
            None \<Rightarrow> logger h1 = logger h \<and> warning_boxes h1 = warning_boxes h
                    \<and> connection_status h1 = (False, None)
          | Some e \<Rightarrow>
              logger h1 = logger h @ [(ERROR, ''Error during disconnect: '' @ str_of_exn e)]
              \<and> warning_boxes h1 = warning_boxes h
                    @ [(''Disconnect Error'', ''Error during disconnect: '' @ str_of_exn e)]
              \<and> connection_status h1 = connection_status h)"
  by (cases "rm_disconnect calls (remote_manager h)")
     (auto simp add: disconnect_def disconnect_body_def Let_def split: option.split)

theorem disconnect_never_propagates_witness:
  "\<exists>h1. disconnect failing_calls (connect sample_calls (dialog_to ''A'') initial_handler) = Inr h1
      \<and> logger h1 = [(ERROR, ''Error during disconnect: Socket is closed'')]
      \<and> warning_boxes h1 = [(''Disconnect Error'', ''Error during disconnect: Socket is closed'')]
      \<and> connection_status h1 = (True, Some ''A'')"
  using disconnect_never_propagates
          [of failing_calls "connect sample_calls (dialog_to ''A'') initial_handler"]
  by (simp add: failing_calls_def sample_calls_def dialog_to_def initial_handler_def
                connect_def Let_def)

subsection \<open>The registry of the specification\<close>

lemma session_connect_failure:
  "session_connect t handles r = (Inl e, handles') \<Longrightarrow>
     e \<in> {AuthError, NetworkError, TimeoutError} \<and> handles' = handles"
  by (auto simp add: session_connect_def Let_def
           split: establish_outcome.splits probe_outcome.splits if_splits)

lemma session_connect_success:
  "session_connect t handles r = (Inr s, handles') \<Longrightarrow>
     connection_state s = Connected \<and> session_record s = r
     \<and> handles' = transport_handle s # handles"
  by (auto simp add: session_connect_def Let_def
           split: establish_outcome.splits probe_outcome.splits if_splits)

lemma filter_absent_key: "map_of xs k = None \<Longrightarrow> filter (\<lambda>entry. fst entry \<noteq> k) xs = xs"
  by (induction xs) (auto split: if_splits)

lemma sessions_tear_down:
  "sessions (tear_down nm m) = filter (\<lambda>entry. fst entry \<noteq> nm) (sessions m)"
  by (simp add: tear_down_def filter_absent_key split: option.split)

lemma filter_distinct_key:
  "distinct (map fst xs) \<Longrightarrow> map_of xs k = Some v \<Longrightarrow>
     filter (\<lambda>entry. fst entry = k) xs = [(k, v)]"
proof (induction xs)
  case Nil
  then show ?case by simp
next
  case (Cons x xs)
  obtain k0 v0 where x: "x = (k0, v0)" by (cases x)
  show ?case
  proof (cases "k0 = k")
    case True
    with Cons.prems x have "v0 = v" and "k \<notin> fst ` set xs" by auto
    then have "filter (\<lambda>entry. fst entry = k) xs = []"
      by (auto simp add: filter_empty_conv)
    with True x \<open>v0 = v\<close> show ?thesis by simp
  next
    case False
    with Cons x show ?thesis by simp
  qed
qed

lemma filter_key_at_most_one:
  "distinct (map fst xs) \<Longrightarrow> length (filter (\<lambda>entry. fst entry = k \<and> P entry) xs) \<le> 1"
proof (induction xs)
  case Nil
  then show ?case by simp
next
  case (Cons x xs)
  show ?case
  proof (cases "fst x = k")
    case True
    with Cons.prems have "k \<notin> fst ` set xs" by auto
    then have "filter (\<lambda>entry. fst entry = k \<and> P entry) xs = []"
      by (auto simp add: filter_empty_conv)
    then show ?thesis by simp
  next
    case False
    with Cons show ?thesis by simp
  qed
qed

lemma live_sessions_at_most_one: "registry_ok m \<Longrightarrow> length (live_sessions m r) \<le> 1"
  using filter_key_at_most_one [of "sessions m" "record_name r"
          "\<lambda>entry. connection_state (snd entry) = Connected"]
  by (simp add: registry_ok_def live_sessions_def)

lemma live_sessions_lookup:
  assumes "registry_ok m" and "map_of (sessions m) (record_name r) = Some s"
  shows "live_sessions m r = [s]"
proof -
  from assms(1) have conn: "\<forall>entry \<in> set (sessions m). connection_state (snd entry) = Connected"
    by (simp add: registry_ok_def list_all_iff)
  then have "filter (\<lambda>entry. fst entry = record_name r \<and> connection_state (snd entry) = Connected)
               (sessions m)
             = filter (\<lambda>entry. fst entry = record_name r) (sessions m)"
    by (auto intro: filter_cong)
  also from assms have "\<dots> = [(record_name r, s)]"
    by (simp add: registry_ok_def filter_distinct_key)
  finally show ?thesis by (simp add: live_sessions_def)
qed

lemma map_of_filter_other:
  "n \<noteq> k \<Longrightarrow> map_of (filter (\<lambda>entry. fst entry \<noteq> k) xs) n = map_of xs n"
  by (induction xs) auto

lemma map_of_filter_same: "map_of (filter (\<lambda>entry. fst entry \<noteq> k) xs) k = None"
  by (induction xs) auto

lemma tear_down_ok: "registry_ok m \<Longrightarrow> registry_ok (tear_down nm m)"
  by (auto simp add: registry_ok_def tear_down_def distinct_map_filter list_all_iff
           split: option.split)


lemma recreate_failure:
  "recreate t m r = (Inl e, m') \<Longrightarrow>
     e \<in> {AuthError, NetworkError, TimeoutError} \<and> m' = tear_down (record_name r) m"
  by (auto simp add: recreate_def Let_def split: prod.splits sum.splits
           dest: session_connect_failure)

lemma recreate_sessions:
  "recreate t m r = (Inr s, m') \<Longrightarrow>
     connection_state s = Connected
     \<and> sessions m' = filter (\<lambda>entry. fst entry \<noteq> record_name r) (sessions m)
                      @ [(record_name r, s)]"
  by (auto simp add: recreate_def Let_def sessions_tear_down split: prod.splits sum.splits
           dest: session_connect_success)

lemma recreate_success:
  assumes "registry_ok m" and "recreate t m r = (Inr s, m')"
  shows "registry_ok m' \<and> map_of (sessions m') (record_name r) = Some s"
proof -
  from assms(2) have conn: "connection_state s = Connected"
    and ss: "sessions m' = filter (\<lambda>entry. fst entry \<noteq> record_name r) (sessions m)
                           @ [(record_name r, s)]"
    by (simp_all add: recreate_sessions)
  from assms(1) have d: "distinct (map fst (sessions m))"
    and c: "list_all (\<lambda>entry. connection_state (snd entry) = Connected) (sessions m)"
    by (simp_all add: registry_ok_def)
  have "distinct (map fst (sessions m'))"
    using d by (auto simp add: ss distinct_map_filter)
  moreover have "list_all (\<lambda>entry. connection_state (snd entry) = Connected) (sessions m')"
    using c conn by (auto simp add: ss list_all_iff)
  moreover have "map_of (sessions m') (record_name r) = Some s"
    by (auto simp add: ss map_add_Some_iff map_of_eq_None_iff)
  ultimately show ?thesis by (simp add: registry_ok_def)
qed

lemma manager_connect_success:
  assumes "registry_ok m" and "manager_connect t m r = (Inr s, m')"
  shows "registry_ok m' \<and> map_of (sessions m') (record_name r) = Some s"
  using assms
  by (auto simp add: manager_connect_def split: option.splits if_splits dest: recreate_success)

text \<open>
  C1. In a registry that keeps one connected session per record name, two successful
  calls of connect for a record \<open>r\<close>, with nothing between them, leave exactly one live
  session for \<open>r\<close>, the one the second call returned; no record has two live sessions; and
  when the session of the first call is still alive the second call returns that very
  session and changes nothing.
\<close>

theorem connect_twice_one_live_session:
  assumes "registry_ok m"
    and "manager_connect t1 m r = (Inr s1, m1)"
    and "manager_connect t2 m1 r = (Inr s2, m2)"
  shows "live_sessions m2 r = [s2]
         \<and> (\<forall>r'. length (live_sessions m2 r') \<le> 1)
         \<and> (is_alive t2 s1 \<longrightarrow> s2 = s1 \<and> m2 = m1)"
proof -
  from assms(1,2) have ok1: "registry_ok m1"
    and l1: "map_of (sessions m1) (record_name r) = Some s1"
    by (simp_all add: manager_connect_success)
  from ok1 assms(3) have ok2: "registry_ok m2"
    and l2: "map_of (sessions m2) (record_name r) = Some s2"
    by (simp_all add: manager_connect_success)
  from ok2 l2 have "live_sessions m2 r = [s2]" by (rule live_sessions_lookup)
  moreover from ok2 have "\<forall>r'. length (live_sessions m2 r') \<le> 1"
    by (blast intro: live_sessions_at_most_one)
  moreover have "is_alive t2 s1 \<longrightarrow> s2 = s1 \<and> m2 = m1"
    using assms(3) l1 by (auto simp add: manager_connect_def)
  ultimately show ?thesis by blast
qed

theorem connect_twice_one_live_session_witness:
  "registry_ok empty_registry
   \<and> manager_connect sample_transport empty_registry sample_record_a
       = (Inr sample_session_a, sample_registry)
   \<and> manager_connect sample_transport sample_registry sample_record_a
       = (Inr sample_session_a, sample_registry)
   \<and> is_alive sample_transport sample_session_a
   \<and> live_sessions sample_registry sample_record_a = [sample_session_a]"
proof -
  have h1: "registry_ok empty_registry"
    by (simp add: registry_ok_def empty_registry_def)
  have h2: "manager_connect sample_transport empty_registry sample_record_a
            = (Inr sample_session_a, sample_registry)"
    by (simp add: manager_connect_def recreate_def session_connect_def tear_down_def
                  empty_registry_def sample_transport_def sample_record_a_def
                  sample_session_a_def sample_registry_def Let_def)
  have h4: "is_alive sample_transport sample_session_a"
    by (simp add: is_alive_def sample_transport_def sample_session_a_def)
  have h3: "manager_connect sample_transport sample_registry sample_record_a
            = (Inr sample_session_a, sample_registry)"
    using h4 by (simp add: manager_connect_def sample_registry_def sample_record_a_def)
  from connect_twice_one_live_session [OF h1 h2 h3]
  have "live_sessions sample_registry sample_record_a = [sample_session_a]" by blast
  with h1 h2 h3 h4 show ?thesis by blast
qed

lemma manager_connect_failure:
  "manager_connect t m r = (Inl e, m') \<Longrightarrow>
     e \<in> {AuthError, NetworkError, TimeoutError} \<and> m' = tear_down (record_name r) m"
  by (auto simp add: manager_connect_def split: option.splits if_splits dest: recreate_failure)

lemma manager_connect_other:
  assumes "manager_connect t m r = (res, m')" and "n \<noteq> record_name r"
  shows "map_of (sessions m') n = map_of (sessions m) n"
proof (cases res)
  case (Inl e)
  with assms(1) have "m' = tear_down (record_name r) m"
    by (simp add: manager_connect_failure)
  with assms(2) show ?thesis
    by (simp add: sessions_tear_down map_of_filter_other)
next
  case (Inr s)
  with assms(1) have "m' = m
      \<or> sessions m' = filter (\<lambda>entry. fst entry \<noteq> record_name r) (sessions m)
                       @ [(record_name r, s)]"
    by (auto simp add: manager_connect_def split: option.splits if_splits
             dest: recreate_sessions)
  with assms(2) show ?thesis
    by (auto simp add: map_of_filter_other map_add_def split: option.split)
qed




text \<open>
  C2. The registry holds any number of sessions at a time: none at first, and after
  successful connects for two records of different names both are connected at once, each
  with its one live session; is-connected answers per name, and disconnect of one name
  reports that a session existed, ends that session and leaves the other connected.
\<close>

theorem registry_holds_several_sessions:
  assumes "registry_ok m"
    and "record_name r1 \<noteq> record_name r2"
    and "manager_connect t1 m r1 = (Inr s1, m1)"
    and "manager_connect t2 m1 r2 = (Inr s2, m2)"
  shows "\<not> manager_is_connected empty_registry nm
         \<and> manager_is_connected m2 (record_name r1)
         \<and> manager_is_connected m2 (record_name r2)
         \<and> live_sessions m2 r1 = [s1]
         \<and> live_sessions m2 r2 = [s2]
         \<and> fst (manager_disconnect (record_name r1) m2)
         \<and> \<not> manager_is_connected (snd (manager_disconnect (record_name r1) m2)) (record_name r1)
         \<and> manager_is_connected (snd (manager_disconnect (record_name r1) m2)) (record_name r2)"
proof -
  from assms(1,3) have ok1: "registry_ok m1"
    and l1: "map_of (sessions m1) (record_name r1) = Some s1"
    by (simp_all add: manager_connect_success)
  from ok1 assms(4) have ok2: "registry_ok m2"
    and l2: "map_of (sessions m2) (record_name r2) = Some s2"
    by (simp_all add: manager_connect_success)
  from assms(4) assms(2) l1 have l1': "map_of (sessions m2) (record_name r1) = Some s1"
    by (simp add: manager_connect_other)
  from ok2 have conn: "\<forall>entry \<in> set (sessions m2). connection_state (snd entry) = Connected"
    by (simp add: registry_ok_def list_all_iff)
  from l1' have "(record_name r1, s1) \<in> set (sessions m2)" by (rule map_of_SomeD)
  with conn have c1: "connection_state s1 = Connected" by auto
  from l2 have "(record_name r2, s2) \<in> set (sessions m2)" by (rule map_of_SomeD)
  with conn have c2: "connection_state s2 = Connected" by auto
  have "\<not> manager_is_connected empty_registry nm"
    by (simp add: manager_is_connected_def empty_registry_def)
  moreover from l1' c1 have "manager_is_connected m2 (record_name r1)"
    by (simp add: manager_is_connected_def)
  moreover from l2 c2 have "manager_is_connected m2 (record_name r2)"
    by (simp add: manager_is_connected_def)
  moreover from ok2 l1' have "live_sessions m2 r1 = [s1]" by (rule live_sessions_lookup)
  moreover from ok2 l2 have "live_sessions m2 r2 = [s2]" by (rule live_sessions_lookup)
  moreover from l1' have "fst (manager_disconnect (record_name r1) m2)"
    by (simp add: manager_disconnect_def)
  moreover have "\<not> manager_is_connected (snd (manager_disconnect (record_name r1) m2)) (record_name r1)"
    by (simp add: manager_disconnect_def manager_is_connected_def sessions_tear_down
                  map_of_filter_same)
  moreover from assms(2) l2 c2
  have "manager_is_connected (snd (manager_disconnect (record_name r1) m2)) (record_name r2)"
    by (simp add: manager_disconnect_def manager_is_connected_def sessions_tear_down
                  map_of_filter_other)
  ultimately show ?thesis by blast
qed

theorem registry_holds_several_sessions_witness:
  "registry_ok empty_registry
   \<and> record_name sample_record_a \<noteq> record_name sample_record_b
   \<and> manager_connect open_transport empty_registry sample_record_a
       = (Inr sample_session_a, sample_registry)
   \<and> manager_connect open_transport sample_registry sample_record_b
       = (Inr sample_session_b, sample_registry_ab)
   \<and> manager_is_connected sample_registry_ab ''A''
   \<and> manager_is_connected sample_registry_ab ''B''
   \<and> manager_is_connected (snd (manager_disconnect ''A'' sample_registry_ab)) ''B''"
proof -
  have h1: "registry_ok empty_registry"
    by (simp add: registry_ok_def empty_registry_def)
  have h2: "record_name sample_record_a \<noteq> record_name sample_record_b"
    by (simp add: sample_record_a_def sample_record_b_def)
  have h3: "manager_connect open_transport empty_registry sample_record_a
            = (Inr sample_session_a, sample_registry)"
    by (simp add: manager_connect_def recreate_def session_connect_def tear_down_def
                  empty_registry_def open_transport_def sample_transport_def
                  sample_record_a_def sample_session_a_def sample_registry_def Let_def)
  have h4: "manager_connect open_transport sample_registry sample_record_b
            = (Inr sample_session_b, sample_registry_ab)"
    by (simp add: manager_connect_def recreate_def session_connect_def tear_down_def
                  open_transport_def sample_transport_def sample_record_b_def
                  sample_session_b_def sample_registry_def sample_registry_ab_def Let_def)
  have na: "record_name sample_record_a = ''A''" by (simp add: sample_record_a_def)
  have nb: "record_name sample_record_b = ''B''" by (simp add: sample_record_b_def)
  from registry_holds_several_sessions [OF h1 h2 h3 h4]
  have "manager_is_connected sample_registry_ab ''A''
        \<and> manager_is_connected sample_registry_ab ''B''
        \<and> manager_is_connected (snd (manager_disconnect ''A'' sample_registry_ab)) ''B''"
    by (simp add: na nb)
  with h1 h2 h3 h4 show ?thesis by blast
qed

subsection \<open>The fan-out of the specification\<close>

text \<open>
  C3. The aggregate result of a fan-out has one entry per target of the request, in the
  order of the targets as resolved at dispatch; for an empty target set the result is the
  empty aggregate and not an error; a request of a known kind always gets its aggregate.
\<close>

theorem fan_out_entries:
  "(targets req = [] \<longrightarrow> fan_out t known_kinds m req = Inr [])
   \<and> (\<forall>entries. fan_out t known_kinds m req = Inr entries \<longrightarrow>
         length entries = length (targets req) \<and> map fst entries = targets req)
   \<and> (kind req \<in> set known_kinds \<longrightarrow> (\<exists>entries. fan_out t known_kinds m req = Inr entries))"
  by (auto simp add: fan_out_def resolve_def comp_def split: if_splits)

theorem fan_out_entries_witness:
  "fan_out sample_transport [''set_variable''] sample_registry sample_request
     = Inr [(''A'', Succeeded ''ok''), (''B'', Failure SessionClosedError)]
   \<and> length [(''A'', Succeeded ''ok''), (''B'', Failure SessionClosedError)]
       = length (targets sample_request)
   \<and> targets (sample_request \<lparr> targets := [] \<rparr>) = []
   \<and> fan_out sample_transport [''set_variable''] sample_registry (sample_request \<lparr> targets := [] \<rparr>)
       = Inr []"
proof -
  have h1: "fan_out sample_transport [''set_variable''] sample_registry sample_request
            = Inr [(''A'', Succeeded ''ok''), (''B'', Failure SessionClosedError)]"
    by (simp add: fan_out_def resolve_def execute_def sample_transport_def sample_registry_def
                  sample_session_a_def sample_request_def)
  have h2: "targets (sample_request \<lparr> targets := [] \<rparr>) = []" by simp
  from fan_out_entries [of sample_request sample_transport "[''set_variable'']" sample_registry] h1
  have c1: "length [(''A'', Succeeded ''ok''), (''B'', Failure SessionClosedError)]
            = length (targets sample_request)"
    by blast
  from fan_out_entries [of "sample_request \<lparr> targets := [] \<rparr>" sample_transport
                           "[''set_variable'']" sample_registry] h2
  have c2: "fan_out sample_transport [''set_variable''] sample_registry
              (sample_request \<lparr> targets := [] \<rparr>) = Inr []"
    by blast
  from h1 h2 c1 c2 show ?thesis by blast
qed

end
